theory Spec2Isabelle
  imports Complex_Main "HOL-Library.Sublist"
begin

section \<open>Python text primitives used by the extension\<close>

text \<open>
  Python strings are modelled as \<^typ>\<open>string\<close>: one \<^typ>\<open>char\<close> per code point, which
  covers the code points below 256. On that range \<open>str.isspace\<close>, the \<open>\s\<close>, \<open>\w\<close> and
  \<open>\b\<close> classes of \<open>re\<close> and \<open>str.lower\<close> are the following tables.
\<close>

definition is_space :: "char \<Rightarrow> bool" where
  "is_space c \<longleftrightarrow>
     c \<in> set [CHR 0x09, CHR 0x0A, CHR 0x0B, CHR 0x0C, CHR 0x0D, CHR 0x1C, CHR 0x1D,
               CHR 0x1E, CHR 0x1F, CHR 0x20, CHR 0x85, CHR 0xA0]"

definition is_word :: "char \<Rightarrow> bool" where
  "is_word c \<longleftrightarrow>
     (let n = (of_char c :: nat) in
        (48 \<le> n \<and> n \<le> 57) \<or> (65 \<le> n \<and> n \<le> 90) \<or> n = 95 \<or> (97 \<le> n \<and> n \<le> 122) \<or>
        n \<in> set [170, 178, 179, 181, 185, 186, 188, 189, 190] \<or>
        (192 \<le> n \<and> n \<le> 214) \<or> (216 \<le> n \<and> n \<le> 246) \<or> (248 \<le> n \<and> n \<le> 255))"

definition lower_char :: "char \<Rightarrow> char" where
  "lower_char c =
     (let n = (of_char c :: nat) in
        if (65 \<le> n \<and> n \<le> 90) \<or> (192 \<le> n \<and> n \<le> 222 \<and> n \<noteq> 215)
        then char_of (n + 32) else c)"

definition lower :: "string \<Rightarrow> string" where
  "lower s = map lower_char s"

definition lstrip :: "string \<Rightarrow> string" where
  "lstrip s = dropWhile is_space s"

definition rstrip :: "string \<Rightarrow> string" where
  "rstrip s = rev (dropWhile is_space (rev s))"

definition strip :: "string \<Rightarrow> string" where
  "strip s = rstrip (lstrip s)"

definition newline :: char where
  "newline = CHR 0x0A"

section \<open>Prompt extraction\<close>

text \<open>
  \<open>_extract_prompt_from_block\<close>. The two regular expressions of \<open>tag_patterns\<close> are
  \<open>^generateimage\b[:\-]?\<close> and \<open>^lightdiffusion\b[:\-]?\<close>, compiled with \<open>re.IGNORECASE\<close>;
  both are anchored at the start of the text, so each is modelled by its tag and the
  function \<open>match_tag\<close>, which returns the text left after the match.
\<close>

definition ticks :: string where
  "ticks = ''```''"

definition strip_ticks :: "string \<Rightarrow> string" where
  "strip_ticks s0 =
     (let s = strip s0;
          s' = (if prefix ticks s \<and> suffix ticks s \<and> 6 \<le> length s
                then take (length s - 6) (drop 3 s) else s)
      in strip s')"

definition tag_patterns :: "string list" where
  "tag_patterns = [''generateimage'', ''lightdiffusion'']"

text \<open>
  \<open>^tag\b[:\-]?\<close> at the start of \<open>s\<close>: the tag in any letter case, a word boundary, and
  one optional colon or hyphen (the optional item is greedy).
\<close>

definition match_tag :: "string \<Rightarrow> string \<Rightarrow> string option" where
  "match_tag tag s =
     (let r = drop (length tag) s in
        if lower (take (length tag) s) = tag \<and> (case r of [] \<Rightarrow> True | c # _ \<Rightarrow> \<not> is_word c)
        then Some (case r of [] \<Rightarrow> []
                   | c # cs \<Rightarrow> if c = CHR '':'' \<or> c = CHR ''-'' then cs else c # cs)
        else None)"

text \<open>\<open>re.sub(tag_re + r"\s*", "", s, count=1, flags=re.IGNORECASE)\<close>.\<close>

definition sub_tag :: "string \<Rightarrow> string \<Rightarrow> string" where
  "sub_tag tag s = (case match_tag tag s of None \<Rightarrow> s | Some r \<Rightarrow> lstrip r)"

text \<open>
  \<open>(.*)$\<close> without \<open>re.DOTALL\<close> or \<open>re.MULTILINE\<close>: the group runs to the end of the
  text, or to a single line feed that ends the text; a line feed anywhere else makes the
  match fail.
\<close>

definition line_end :: "string \<Rightarrow> string option" where
  "line_end r =
     (if newline \<notin> set r then Some r
      else if last r = newline \<and> newline \<notin> set (butlast r) then Some (butlast r)
      else None)"

text \<open>\<open>re.match(tag_re + r"\s*(.*)$", info, re.IGNORECASE)\<close>: the group, if it matches.\<close>

definition match_info :: "string \<Rightarrow> string \<Rightarrow> string option" where
  "match_info tag info =
     (case match_tag tag info of None \<Rightarrow> None | Some r \<Rightarrow> line_end (lstrip r))"

text \<open>\<open>re.match(tag_re + r"$", info, re.IGNORECASE)\<close>.\<close>

definition match_exact :: "string \<Rightarrow> string \<Rightarrow> bool" where
  "match_exact tag info =
     (case match_tag tag info of None \<Rightarrow> False | Some r \<Rightarrow> r = [] \<or> r = [newline])"

text \<open>The two \<open>for tag_re in tag_patterns\<close> loops over the info string.\<close>

fun first_info_match :: "string list \<Rightarrow> string \<Rightarrow> string option" where
  "first_info_match [] info = None"
| "first_info_match (tag # tags) info =
     (case match_info tag info of
        Some g \<Rightarrow> Some (strip g)
      | None \<Rightarrow> first_info_match tags info)"

fun any_exact_match :: "string list \<Rightarrow> string \<Rightarrow> bool" where
  "any_exact_match [] info = False"
| "any_exact_match (tag # tags) info =
     (if match_exact tag info then True else any_exact_match tags info)"

definition info_prompt :: "string \<Rightarrow> string option" where
  "info_prompt info =
     (case first_info_match tag_patterns info of
        Some g \<Rightarrow> Some g
      | None \<Rightarrow> if any_exact_match tag_patterns info then Some [] else None)"

text \<open>The loop \<open>for tag_re in tag_patterns: body = re.sub(...)\<close>.\<close>

definition strip_tags :: "string \<Rightarrow> string" where
  "strip_tags s = foldl (\<lambda>b tag. sub_tag tag b) s tag_patterns"

definition clean_body :: "string \<Rightarrow> string" where
  "clean_body body0 =
     (let body = strip_tags (strip_ticks body0);
          body' = (if prefix ticks body then strip (strip_tags (strip_ticks body)) else body)
      in strip body')"

definition or_empty :: "string option \<Rightarrow> string" where
  "or_empty s = (case s of None \<Rightarrow> [] | Some t \<Rightarrow> t)"

definition extract_prompt_from_block :: "string option \<Rightarrow> string option \<Rightarrow> string" where
  "extract_prompt_from_block codeblock lang =
     (let body = strip (or_empty codeblock);
          info = strip (or_empty lang)
      in case (if body = [] \<and> info \<noteq> [] then info_prompt info else None) of
           Some p \<Rightarrow> p
         | None \<Rightarrow> clean_body body)"

section \<open>Python values and the built-ins the extension calls\<close>

text \<open>
  The values that settings, JSON documents and the request body hold. A finite float is
  the rational it denotes. A JSON object is an association list read through
  \<^const>\<open>map_of\<close>.
\<close>

datatype pyfloat = Finite rat | NaN | PosInf | NegInf

datatype pyval =
    PNone
  | PBool bool
  | PInt int
  | PFloat pyfloat
  | PStr string
  | PList "pyval list"
  | PDict "(string \<times> pyval) list"

datatype exn =
    AttributeError string
  | TypeError string
  | ValueError string
  | OSError string
  | RequestException string
  | JSONDecodeError string

fun str_exn :: "exn \<Rightarrow> string" where
  "str_exn (AttributeError m) = m"
| "str_exn (TypeError m) = m"
| "str_exn (ValueError m) = m"
| "str_exn (OSError m) = m"
| "str_exn (RequestException m) = m"
| "str_exn (JSONDecodeError m) = m"

definition type_name :: "pyval \<Rightarrow> string" where
  "type_name v =
     (case v of
        PNone \<Rightarrow> ''NoneType'' | PBool b \<Rightarrow> ''bool'' | PInt i \<Rightarrow> ''int'' | PFloat f \<Rightarrow> ''float''
      | PStr s \<Rightarrow> ''str'' | PList xs \<Rightarrow> ''list'' | PDict d \<Rightarrow> ''dict'')"

definition quoted :: "string \<Rightarrow> string" where
  "quoted s = CHR 0x27 # s @ [CHR 0x27]"

definition no_attribute :: "pyval \<Rightarrow> string \<Rightarrow> exn" where
  "no_attribute v attr =
     AttributeError (quoted (type_name v) @ '' object has no attribute '' @ quoted attr)"

text \<open>The outcome of \<open>requests.post\<close>: it raises, or answers with a response object.\<close>

datatype http_result =
    PostRaises string
  | Response (resp_ok: bool) (status_code: int) (resp_text: string)
      (resp_json: "string + pyval")

text \<open>
  Everything \<open>generate_image\<close> reads from outside: the host's settings, the extension
  directory, the Python library functions whose results depend on the interpreter
  (\<open>int\<close> and \<open>float\<close> of text, \<open>float\<close> of an integer, \<open>str\<close> of a float or a
  container, \<open>json.loads\<close>; \<open>None\<close> where the call raises; \<open>base64.b64decode\<close> with
  the message of its error), the backend, the file system and the image loader of the host
  (the message of the error, where an operation fails).
\<close>

record world =
  get_setting :: "string \<Rightarrow> pyval"
  extension_path :: string
  str_to_int :: "string \<Rightarrow> int option"
  str_to_float :: "string \<Rightarrow> pyfloat option"
  int_to_float :: "int \<Rightarrow> pyfloat option"
  repr_of :: "pyval \<Rightarrow> string"
  json_loads :: "string \<Rightarrow> pyval option"
  b64decode :: "string \<Rightarrow> string + string"
  http_post :: "string \<Rightarrow> (string \<rightharpoonup> pyval) \<Rightarrow> http_result"
  makedirs_error :: "string \<Rightarrow> string option"
  open_error :: "string \<Rightarrow> string option"
  savev_error :: "string \<Rightarrow> string option"
  load_image_error :: "string \<Rightarrow> string option"

fun truthy :: "pyval \<Rightarrow> bool" where
  "truthy PNone = False"
| "truthy (PBool b) = b"
| "truthy (PInt i) = (i \<noteq> 0)"
| "truthy (PFloat f) = (f \<noteq> Finite 0)"
| "truthy (PStr s) = (s \<noteq> [])"
| "truthy (PList xs) = (xs \<noteq> [])"
| "truthy (PDict d) = (d \<noteq> [])"

definition py_or :: "pyval \<Rightarrow> pyval \<Rightarrow> pyval" where
  "py_or a b = (if truthy a then a else b)"

definition trunc :: "rat \<Rightarrow> int" where
  "trunc q = (if 0 \<le> q then \<lfloor>q\<rfloor> else \<lceil>q\<rceil>)"

text \<open>\<open>int(v)\<close>, \<open>float(v)\<close> and \<open>str(v)\<close>; \<open>None\<close> where Python raises.\<close>

fun py_int :: "world \<Rightarrow> pyval \<Rightarrow> int option" where
  "py_int w PNone = None"
| "py_int w (PBool b) = Some (if b then 1 else 0)"
| "py_int w (PInt i) = Some i"
| "py_int w (PFloat (Finite q)) = Some (trunc q)"
| "py_int w (PFloat f) = None"
| "py_int w (PStr s) = str_to_int w s"
| "py_int w (PList xs) = None"
| "py_int w (PDict d) = None"

fun py_float :: "world \<Rightarrow> pyval \<Rightarrow> pyfloat option" where
  "py_float w PNone = None"
| "py_float w (PBool b) = Some (Finite (if b then 1 else 0))"
| "py_float w (PInt i) = int_to_float w i"
| "py_float w (PFloat f) = Some f"
| "py_float w (PStr s) = str_to_float w s"
| "py_float w (PList xs) = None"
| "py_float w (PDict d) = None"

fun show_nat :: "nat \<Rightarrow> string" where
  "show_nat n =
     (if n < 10 then [char_of (48 + n)]
      else show_nat (n div 10) @ [char_of (48 + n mod 10)])"

declare show_nat.simps [simp del]

definition show_int :: "int \<Rightarrow> string" where
  "show_int i = (if i < 0 then CHR ''-'' # show_nat (nat (- i)) else show_nat (nat i))"

fun py_str :: "world \<Rightarrow> pyval \<Rightarrow> string" where
  "py_str w (PStr s) = s"
| "py_str w PNone = ''None''"
| "py_str w (PBool b) = (if b then ''True'' else ''False'')"
| "py_str w (PInt i) = show_int i"
| "py_str w v = repr_of w v"

text \<open>\<open>s.replace(old, new)\<close>: every occurrence, left to right, without overlap.\<close>

function str_replace :: "string \<Rightarrow> string \<Rightarrow> string \<Rightarrow> string" where
  "str_replace old new s =
     (if old = [] then new @ concat (map (\<lambda>c. c # new) s)
      else if s = [] then []
      else if prefix old s then new @ str_replace old new (drop (length old) s)
      else hd s # str_replace old new (tl s))"
  by pat_completeness auto
termination
  by (relation "measure (\<lambda>(old, new, s). length s)") (auto simp: neq_Nil_conv)

declare str_replace.simps [simp del]

definition rstrip_slash :: "string \<Rightarrow> string" where
  "rstrip_slash s = rev (dropWhile (\<lambda>c. c = CHR ''/'') (rev s))"

text \<open>\<open>os.path.join\<close> of two components and \<open>os.path.dirname\<close> (POSIX).\<close>

definition path_join :: "string \<Rightarrow> string \<Rightarrow> string" where
  "path_join a b =
     (if prefix ''/'' b then b
      else if a = [] \<or> suffix ''/'' a then a @ b
      else a @ ''/'' @ b)"

definition dirname :: "string \<Rightarrow> string" where
  "dirname p =
     (let head = rev (dropWhile (\<lambda>c. c \<noteq> CHR ''/'') (rev p)) in
        if head \<noteq> [] \<and> \<not> list_all (\<lambda>c. c = CHR ''/'') head then rstrip_slash head else head)"

definition dict_get :: "pyval \<Rightarrow> string \<Rightarrow> pyval option" where
  "dict_get v k = (case v of PDict d \<Rightarrow> map_of d k | _ \<Rightarrow> None)"

section \<open>The image widget\<close>

text \<open>
  What a run does to the outside world is a trace of events; the fields of
  \<open>ImageGeneratorWidget\<close> that its methods read or write are a record. Work that the
  widget hands to another thread or to the main loop is recorded as started
  (\<open>LoadFromPath\<close>, \<open>LoadFromUrl\<close> with the path its completion callback saves to), not run.
  \<open>print\<close>, \<open>traceback.print_exc\<close>, \<open>get_setting\<close> and the toolkit calls of the widget
  (\<open>set_visible\<close>, the CSS classes, starting a thread) are taken to return; whatever else
  can raise does so with an instance of \<open>Exception\<close>.
\<close>

datatype event =
    Print string
  | PrintExc exn
  | Post string "string \<rightharpoonup> pyval"
  | MakeDirs string
  | OpenWrite string
  | WriteFile string string
  | SavePixbuf string
  | LoadFromPath string
  | LoadFromUrl string "string option"
  | SetIcon string

record widget =
  loading :: bool
  current_url :: "string option"
  current_pixbuf :: bool
  prompt_text :: "string option"

record run =
  trace :: "event list"
  wdg :: widget

definition emit :: "event \<Rightarrow> run \<Rightarrow> run" where
  "emit e r = r\<lparr>trace := trace r @ [e]\<rparr>"

definition show_loading :: "bool \<Rightarrow> run \<Rightarrow> run" where
  "show_loading b r = r\<lparr>wdg := (wdg r)\<lparr>loading := b\<rparr>\<rparr>"

definition set_image_from_path :: "string \<Rightarrow> run \<Rightarrow> run" where
  "set_image_from_path path r = emit (LoadFromPath path) (show_loading True r)"

text \<open>
  \<open>set_image_from_url(url, callback)\<close>. Both callbacks that the file passes save the image
  to a path on success and do nothing on failure, so a callback is the path it saves to.
\<close>

definition set_image_from_url :: "world \<Rightarrow> string \<Rightarrow> string option \<Rightarrow> run \<Rightarrow> run" where
  "set_image_from_url w url callback r =
     (let r1 = show_loading True (r\<lparr>wdg := (wdg r)\<lparr>current_url := Some url\<rparr>\<rparr>) in
        case load_image_error w url of
          None \<Rightarrow> emit (LoadFromUrl url callback) r1
        | Some m \<Rightarrow>
            emit (SetIcon ''image-missing'')
              (show_loading False (emit (Print (''Error loading image from URL: '' @ m)) r1)))"

definition save_image :: "world \<Rightarrow> string \<Rightarrow> run \<Rightarrow> exn option \<times> run" where
  "save_image w file_path r =
     (if \<not> current_pixbuf (wdg r) then (Some (ValueError ''No image loaded to save''), r)
      else if dirname file_path = [] then (Some (OSError (''[Errno 2] No such file or directory: '' @ quoted [])), r)
      else case makedirs_error w (dirname file_path) of
             Some m \<Rightarrow> (Some (OSError m), r)
           | None \<Rightarrow>
               (let r1 = emit (MakeDirs (dirname file_path)) r in
                  case savev_error w file_path of
                    Some m \<Rightarrow> (Some (OSError m), r1)
                  | None \<Rightarrow> (None, emit (SavePixbuf file_path) r1)))"

text \<open>
  \<open>download_and_save(save_path)\<close> with no callback: it raises when no URL is set; an error
  of \<open>save_image\<close> is caught and dropped.
\<close>

definition download_and_save :: "world \<Rightarrow> string \<Rightarrow> run \<Rightarrow> exn option \<times> run" where
  "download_and_save w save_path r =
     (case current_url (wdg r) of
        None \<Rightarrow> (Some (ValueError ''No URL set to download''), r)
      | Some u \<Rightarrow>
          if u = [] then (Some (ValueError ''No URL set to download''), r)
          else if current_pixbuf (wdg r) then (None, snd (save_image w save_path r))
          else (None, set_image_from_url w u (Some save_path) r))"

text \<open>A new \<open>ImageGeneratorWidget\<close>: no image, no URL, the loading state shown.\<close>

definition new_widget :: widget where
  "new_widget = \<lparr>loading = True, current_url = None, current_pixbuf = False, prompt_text = None\<rparr>"

section \<open>Image generation\<close>

definition show_error_message :: "string \<Rightarrow> run \<Rightarrow> run" where
  "show_error_message msg r =
     show_loading False (emit (Print (''[LightDiffusionExtension] Error: '' @ msg)) r)"

subsection \<open>Reading the settings\<close>

definition base_url :: "world \<Rightarrow> string" where
  "base_url w =
     rstrip_slash (py_str w (py_or (get_setting w ''url'') (PStr ''http://localhost:7861'')))"

definition pos_tpl :: "world \<Rightarrow> pyval" where
  "pos_tpl w = py_or (get_setting w ''positive-prompt'') (PStr ''[input]'')"

definition neg_tpl :: "world \<Rightarrow> pyval" where
  "neg_tpl w = py_or (get_setting w ''negative-prompt'') (PStr [])"

definition width :: "world \<Rightarrow> int" where
  "width w = (case py_int w (get_setting w ''width'') of Some i \<Rightarrow> i | None \<Rightarrow> 512)"

definition height :: "world \<Rightarrow> int" where
  "height w = (case py_int w (get_setting w ''height'') of Some i \<Rightarrow> i | None \<Rightarrow> 512)"

definition steps :: "world \<Rightarrow> int option" where
  "steps w =
     (let steps_val = get_setting w ''steps'' in
        if steps_val \<noteq> PNone then py_int w steps_val else None)"

definition guidance_scale :: "world \<Rightarrow> pyfloat option" where
  "guidance_scale w =
     (let gs_val = get_setting w ''guidance_scale'' in
        if gs_val \<noteq> PNone then py_float w gs_val else None)"

definition seed :: "world \<Rightarrow> int" where
  "seed w =
     (let seed_raw = get_setting w ''seed'' in
        if seed_raw \<notin> set [PNone, PStr [], PStr ''-1'']
        then (case py_int w seed_raw of Some i \<Rightarrow> i | None \<Rightarrow> - 1)
        else - 1)"

definition extra_payload :: "world \<Rightarrow> pyval" where
  "extra_payload w =
     (case py_or (get_setting w ''extra_payload'') (PStr ''{}'') of
        PStr raw \<Rightarrow> (case json_loads w raw of Some v \<Rightarrow> v | None \<Rightarrow> PDict [])
      | _ \<Rightarrow> PDict [])"

text \<open>\<open>extra_payload.get("endpoint_path", "/api/generate")\<close>: only a dict has \<open>get\<close>.\<close>

definition endpoint_path :: "world \<Rightarrow> exn + pyval" where
  "endpoint_path w =
     (case extra_payload w of
        PDict d \<Rightarrow>
          Inr (case map_of d ''endpoint_path'' of Some v \<Rightarrow> v | None \<Rightarrow> PStr ''/api/generate'')
      | v \<Rightarrow> Inl (no_attribute v ''get''))"

text \<open>\<open>pos_tpl.replace("[input]", prompt)\<close>: only a string has \<open>replace\<close>.\<close>

definition positive :: "world \<Rightarrow> string \<Rightarrow> exn + string" where
  "positive w prompt =
     (case pos_tpl w of
        PStr t \<Rightarrow> Inr (str_replace ''[input]'' prompt t)
      | v \<Rightarrow> Inl (no_attribute v ''replace''))"

definition get_int :: "world \<Rightarrow> string \<Rightarrow> int \<Rightarrow> int" where
  "get_int w name dflt =
     (let v = get_setting w name in
        if v = PNone then dflt
        else case py_int w v of Some i \<Rightarrow> i | None \<Rightarrow> dflt)"

definition get_float :: "world \<Rightarrow> string \<Rightarrow> pyfloat \<Rightarrow> pyfloat" where
  "get_float w name dflt =
     (let v = get_setting w name in
        if v = PNone then dflt
        else case py_float w v of Some x \<Rightarrow> x | None \<Rightarrow> dflt)"

definition get_bool :: "world \<Rightarrow> string \<Rightarrow> bool \<Rightarrow> bool" where
  "get_bool w name dflt =
     (case get_setting w name of
        PNone \<Rightarrow> dflt
      | PBool b \<Rightarrow> b
      | v \<Rightarrow>
          (case py_int w v of
             Some i \<Rightarrow> i \<noteq> 0
           | None \<Rightarrow>
               (let s = lower (strip (py_str w v)) in
                  if s \<in> set [''true'', ''yes'', ''on'', ''1''] then True
                  else if s \<in> set [''false'', ''no'', ''off'', ''0''] then False
                  else dflt)))"

subsection \<open>The request\<close>

text \<open>The dictionary literal that starts the payload.\<close>

definition payload_items :: "world \<Rightarrow> string \<Rightarrow> (string \<times> pyval) list" where
  "payload_items w pos =
     [(''prompt'', PStr pos),
      (''negative_prompt'', neg_tpl w),
      (''width'', PInt (width w)),
      (''height'', PInt (height w)),
      (''num_images'', PInt (get_int w ''num_images'' 1)),
      (''batch_size'', PInt (get_int w ''batch_size'' 1)),
      (''hires_fix'', PBool (get_bool w ''hires_fix'' False)),
      (''adetailer'', PBool (get_bool w ''adetailer'' False)),
      (''enhance_prompt'', PBool (get_bool w ''enhance_prompt'' False)),
      (''img2img_enabled'', PBool (get_bool w ''img2img_enabled'' False)),
      (''img2img_image'', py_or (get_setting w ''img2img_image'') PNone),
      (''stable_fast'', PBool (get_bool w ''stable_fast'' False)),
      (''reuse_seed'', PBool (seed w \<noteq> - 1 \<or> get_bool w ''reuse_seed'' False)),
      (''flux_enabled'', PBool (get_bool w ''flux_enabled'' False)),
      (''prio_speed'', PBool (get_bool w ''prio_speed'' False)),
      (''realistic_model'', PBool (get_bool w ''realistic_model'' False)),
      (''multiscale_enabled'', PBool (get_bool w ''multiscale_enabled'' True)),
      (''multiscale_intermittent'', PBool (get_bool w ''multiscale_intermittent'' False)),
      (''multiscale_factor'', PFloat (get_float w ''multiscale_factor'' (Finite (1 / 2)))),
      (''multiscale_fullres_start'', PInt (get_int w ''multiscale_fullres_start'' 3)),
      (''multiscale_fullres_end'', PInt (get_int w ''multiscale_fullres_end'' 8)),
      (''keep_models_loaded'', PBool (get_bool w ''keep_models_loaded'' True)),
      (''enable_preview'', PBool (get_bool w ''enable_preview'' False))]"

definition base_payload :: "world \<Rightarrow> string \<Rightarrow> string \<rightharpoonup> pyval" where
  "base_payload w pos = map_of (payload_items w pos)"

text \<open>The check that image-to-image mode has a source image.\<close>

definition img2img_enabled :: "world \<Rightarrow> bool" where
  "img2img_enabled w =
     (case py_int w (py_or (get_setting w ''img2img_enabled'') (PInt 0)) of
        Some i \<Rightarrow> i \<noteq> 0
      | None \<Rightarrow> False)"

definition img2img_image :: "world \<Rightarrow> exn + string" where
  "img2img_image w =
     (case py_or (get_setting w ''img2img_image'') (PStr []) of
        PStr s \<Rightarrow> Inr (strip s)
      | v \<Rightarrow> Inl (no_attribute v ''strip''))"

text \<open>The three optional keys, then the overlay of the user's extra options.\<close>

definition with_extras :: "world \<Rightarrow> (string \<rightharpoonup> pyval) \<Rightarrow> string \<rightharpoonup> pyval" where
  "with_extras w payload =
     (let p1 = (case steps w of Some n \<Rightarrow> payload(''steps'' \<mapsto> PInt n) | None \<Rightarrow> payload);
          p2 = (case guidance_scale w of
                  Some g \<Rightarrow> p1(''guidance_scale'' \<mapsto> PFloat g) | None \<Rightarrow> p1)
      in if 0 \<le> seed w then p2(''seed'' \<mapsto> PInt (seed w)) else p2)"

definition merge_extra :: "pyval \<Rightarrow> (string \<rightharpoonup> pyval) \<Rightarrow> string \<rightharpoonup> pyval" where
  "merge_extra extra payload =
     (case extra of
        PDict d \<Rightarrow> payload ++ map_of (filter (\<lambda>(k, v). k \<noteq> ''endpoint_path'') d)
      | _ \<Rightarrow> payload)"

datatype request = Rejected string | Dispatch string "string \<rightharpoonup> pyval"

text \<open>
  \<open>generate_image\<close> from its first line to the line before \<open>requests.post\<close>: an exception,
  the client-side rejection, or the URL and the body of the request.
\<close>

definition prepare :: "world \<Rightarrow> string \<Rightarrow> exn + request" where
  "prepare w prompt =
     (case endpoint_path w of
        Inl e \<Rightarrow> Inl e
      | Inr ep \<Rightarrow>
          (let url = base_url w @ py_str w ep in
             case positive w prompt of
               Inl e \<Rightarrow> Inl e
             | Inr pos \<Rightarrow>
                 (let payload = base_payload w pos in
                    case img2img_image w of
                      Inl e \<Rightarrow> Inl e
                    | Inr img \<Rightarrow>
                        if img2img_enabled w \<and> img = []
                        then Inr (Rejected
                          ''Img2Img is enabled but no image path is set in Advanced Settings.'')
                        else Inr (Dispatch url
                                   (merge_extra (extra_payload w) (with_extras w payload))))))"

subsection \<open>Saving a base64 image\<close>

text \<open>
  \<open>_save_base64_png(b64_data, out_path)\<close>. The value comes from the response, so it need
  not be a string: \<open>"," in b64_data\<close> raises on a value that is no container,
  \<open>b64_data.strip()\<close> on one that is no string. \<open>open(out_path, "wb")\<close> creates or empties
  the file before \<open>b64decode\<close> is evaluated.
\<close>

definition has_comma :: "pyval \<Rightarrow> exn + bool" where
  "has_comma v =
     (case v of
        PStr s \<Rightarrow> Inr (CHR '','' \<in> set s)
      | PList xs \<Rightarrow> Inr (PStr '','' \<in> set xs)
      | PDict d \<Rightarrow> Inr ('','' \<in> set (map fst d))
      | _ \<Rightarrow> Inl (TypeError (''argument of type '' @ quoted (type_name v) @ '' is not iterable'')))"

definition starts_with_data :: "pyval \<Rightarrow> exn + bool" where
  "starts_with_data v =
     (case v of
        PStr s \<Rightarrow> Inr (prefix ''data:'' (strip s))
      | v \<Rightarrow> Inl (no_attribute v ''strip''))"

definition after_comma :: "pyval \<Rightarrow> pyval" where
  "after_comma v =
     (case v of PStr s \<Rightarrow> PStr (tl (dropWhile (\<lambda>c. c \<noteq> CHR '','') s)) | _ \<Rightarrow> v)"

definition write_decoded :: "world \<Rightarrow> pyval \<Rightarrow> string \<Rightarrow> run \<Rightarrow> exn option \<times> run" where
  "write_decoded w b64_data out_path r =
     (if dirname out_path = [] then (Some (OSError (''[Errno 2] No such file or directory: '' @ quoted [])), r)
      else case makedirs_error w (dirname out_path) of
             Some m \<Rightarrow> (Some (OSError m), r)
           | None \<Rightarrow>
               (let r1 = emit (MakeDirs (dirname out_path)) r in
                  case open_error w out_path of
                    Some m \<Rightarrow> (Some (OSError m), r1)
                  | None \<Rightarrow>
                      (let r2 = emit (OpenWrite out_path) r1 in
                         case b64_data of
                           PStr s \<Rightarrow>
                             (case b64decode w s of
                                Inl m \<Rightarrow> (Some (ValueError m), r2)
                              | Inr bytes \<Rightarrow> (None, emit (WriteFile out_path bytes) r2))
                         | v \<Rightarrow>
                             (Some (TypeError
                                (''argument should be a bytes-like object or ASCII string, not ''
                                 @ quoted (type_name v))), r2))))"

definition save_base64_png :: "world \<Rightarrow> pyval \<Rightarrow> string \<Rightarrow> run \<Rightarrow> exn option \<times> run" where
  "save_base64_png w b64_data out_path r =
     (case has_comma b64_data of
        Inl e \<Rightarrow> (Some e, r)
      | Inr False \<Rightarrow> write_decoded w b64_data out_path r
      | Inr True \<Rightarrow>
          (case starts_with_data b64_data of
             Inl e \<Rightarrow> (Some e, r)
           | Inr d \<Rightarrow>
               write_decoded w (if d then after_comma b64_data else b64_data) out_path r))"

subsection \<open>Interpreting the response\<close>

text \<open>
  The four tests on the response, in the order of the source; each returns, so the first
  that holds decides. A shape carries the value it consumes.
\<close>

datatype shape = ImageList pyval | SingleImage string | ImageUrl string | FilePath string

text \<open>
  \<open>isinstance(data, dict) and isinstance(data.get("images"), list) and data["images"]\<close>,
  with the element \<open>data["images"][0]\<close>; and
  \<open>isinstance(data, dict) and isinstance(data.get(k), str)\<close>, with the string.
\<close>

definition images_first :: "pyval \<Rightarrow> pyval option" where
  "images_first data =
     (case dict_get data ''images'' of Some (PList (x # xs)) \<Rightarrow> Some x | _ \<Rightarrow> None)"

definition str_at :: "pyval \<Rightarrow> string \<Rightarrow> string option" where
  "str_at data k = (case dict_get data k of Some (PStr s) \<Rightarrow> Some s | _ \<Rightarrow> None)"

definition response_shape :: "pyval \<Rightarrow> shape option" where
  "response_shape data =
     (case images_first data of
        Some x \<Rightarrow> Some (ImageList x)
      | None \<Rightarrow>
        (case str_at data ''image'' of
           Some s \<Rightarrow> Some (SingleImage s)
         | None \<Rightarrow>
           (case str_at data ''image_url'' of
              Some u \<Rightarrow> Some (ImageUrl u)
            | None \<Rightarrow>
              (case str_at data ''file_path'' of
                 Some f \<Rightarrow> Some (FilePath f)
               | None \<Rightarrow> None))))"

definition interpret_response :: "world \<Rightarrow> pyval \<Rightarrow> string \<Rightarrow> run \<Rightarrow> exn option \<times> run" where
  "interpret_response w data cache_out r =
     (case response_shape data of
        Some (ImageList img_b64) \<Rightarrow>
          (case save_base64_png w img_b64 cache_out r of
             (Some e, r') \<Rightarrow> (Some e, r')
           | (None, r') \<Rightarrow> (None, set_image_from_path cache_out r'))
      | Some (SingleImage img_b64) \<Rightarrow>
          (case save_base64_png w (PStr img_b64) cache_out r of
             (Some e, r') \<Rightarrow> (Some e, r')
           | (None, r') \<Rightarrow> (None, set_image_from_path cache_out r'))
      | Some (ImageUrl u) \<Rightarrow> (None, set_image_from_url w u (Some cache_out) r)
      | Some (FilePath f) \<Rightarrow>
          (None, snd (download_and_save w cache_out (set_image_from_path f r)))
      | None \<Rightarrow> (None, show_error_message ''Unexpected response format from backend.'' r))"

subsection \<open>\<open>generate_image\<close> and \<open>get_gtk_widget\<close>\<close>

definition cache_dir :: "world \<Rightarrow> string" where
  "cache_dir w = path_join (extension_path w) ''generated_images''"

definition cache_out :: "world \<Rightarrow> string option \<Rightarrow> string" where
  "cache_out w msg_uuid =
     path_join (cache_dir w)
       ((case msg_uuid of None \<Rightarrow> ''latest'' | Some u \<Rightarrow> if u = [] then ''latest'' else u)
        @ ''.png'')"

text \<open>The body of the \<open>try\<close> block: the exception it ends with, if any, and the run.\<close>

definition generate_image_try ::
  "world \<Rightarrow> string \<Rightarrow> string option \<Rightarrow> run \<Rightarrow> exn option \<times> run" where
  "generate_image_try w prompt msg_uuid r =
     (case prepare w prompt of
        Inl e \<Rightarrow> (Some e, r)
      | Inr (Rejected msg) \<Rightarrow> (None, show_error_message msg r)
      | Inr (Dispatch url payload) \<Rightarrow>
          (let r1 = emit (Post url payload) r in
             case http_post w url payload of
               PostRaises m \<Rightarrow> (Some (RequestException m), r1)
             | Response ok status body js \<Rightarrow>
                 if \<not> ok
                 then (None,
                       show_error_message (''HTTP '' @ show_int status @ '': '' @ take 200 body) r1)
                 else (case js of
                         Inl m \<Rightarrow> (Some (JSONDecodeError m), r1)
                       | Inr data \<Rightarrow> interpret_response w data (cache_out w msg_uuid) r1)))"

text \<open>The \<open>except Exception\<close> handler around it.\<close>

definition generate_image :: "world \<Rightarrow> string \<Rightarrow> string option \<Rightarrow> run \<Rightarrow> run" where
  "generate_image w prompt msg_uuid r =
     (case generate_image_try w prompt msg_uuid r of
        (None, r') \<Rightarrow> r'
      | (Some e, r') \<Rightarrow> show_error_message (str_exn e) (emit (PrintExc e) r'))"


section \<open>The settings list\<close>


section \<open>Observations on a run\<close>

text \<open>The requests a run has sent, the cache files it writes, and what it reports.\<close>

fun post_of :: "event \<Rightarrow> (string \<times> (string \<rightharpoonup> pyval)) option" where
  "post_of (Post url payload) = Some (url, payload)"
| "post_of e = None"

definition posts :: "run \<Rightarrow> (string \<times> (string \<rightharpoonup> pyval)) list" where
  "posts r = List.map_filter post_of (trace r)"

text \<open>
  The file an event writes; for a load from a URL, the file its completion callback
  saves to.
\<close>

fun cache_target :: "event \<Rightarrow> string option" where
  "cache_target (OpenWrite p) = Some p"
| "cache_target (WriteFile p bytes) = Some p"
| "cache_target (SavePixbuf p) = Some p"
| "cache_target (LoadFromUrl u cb) = cb"
| "cache_target e = None"

definition written_paths :: "run \<Rightarrow> string list" where
  "written_paths r = List.map_filter cache_target (trace r)"

fun image_event :: "event \<Rightarrow> bool" where
  "image_event (LoadFromPath p) = True"
| "image_event (LoadFromUrl u cb) = True"
| "image_event (SetIcon n) = True"
| "image_event e = False"

definition image_events :: "run \<Rightarrow> event list" where
  "image_events r = filter image_event (trace r)"

fun print_of :: "event \<Rightarrow> string option" where
  "print_of (Print s) = Some s"
| "print_of e = None"

definition printed :: "run \<Rightarrow> string list" where
  "printed r = List.map_filter print_of (trace r)"

text \<open>
  A failure is reported: the last thing the run did was \<open>show_error_message(msg)\<close>, which
  prints the message and leaves the loading state off.
\<close>

definition reported :: "string \<Rightarrow> run \<Rightarrow> bool" where
  "reported msg r \<longleftrightarrow>
     trace r \<noteq> [] \<and> last (trace r) = Print (''[LightDiffusionExtension] Error: '' @ msg) \<and>
     \<not> loading (wdg r)"

text \<open>
  An event that is no request and writes no file but \<open>out\<close>; \<open>appends out r r'\<close>: the run
  \<open>r'\<close> is \<open>r\<close> followed by such events only.
\<close>

definition local_event :: "string \<Rightarrow> event \<Rightarrow> bool" where
  "local_event out e \<longleftrightarrow>
     post_of e = None \<and> (cache_target e = None \<or> cache_target e = Some out)"

definition appends :: "string \<Rightarrow> run \<Rightarrow> run \<Rightarrow> bool" where
  "appends out r r' \<longleftrightarrow>
     take (length (trace r)) (trace r') = trace r \<and>
     list_all (local_event out) (drop (length (trace r)) (trace r'))"

text \<open>The run after \<open>requests.post\<close> was called, if the settings led to a request.\<close>

definition dispatched :: "world \<Rightarrow> string \<Rightarrow> run \<Rightarrow> run" where
  "dispatched w prompt r =
     (case prepare w prompt of Inr (Dispatch url payload) \<Rightarrow> emit (Post url payload) r | _ \<Rightarrow> r)"

definition new_run :: run where
  "new_run = \<lparr>trace = [], wdg = new_widget\<rparr>"

subsection \<open>Response keys, as the interface description words them\<close>

definition holds_array :: "pyval \<Rightarrow> string \<Rightarrow> bool" where
  "holds_array data k = (case dict_get data k of Some (PList xs) \<Rightarrow> True | _ \<Rightarrow> False)"

subsection \<open>Prompt blocks\<close>

text \<open>
  The three forms of the docstring of \<open>_extract_prompt_from_block\<close>, for a tag and a prompt:
  a fenced block with the prompt as body, a one-line block whose info string holds tag
  and prompt, and a body that starts with the tag.
\<close>

datatype block_form = FencedBody | OneLiner | TaggedBody

fun extract_form :: "block_form \<Rightarrow> string \<Rightarrow> string \<Rightarrow> string" where
  "extract_form FencedBody tag p = extract_prompt_from_block (Some p) (Some tag)"
| "extract_form OneLiner tag p = extract_prompt_from_block (Some []) (Some (tag @ '' '' @ p))"
| "extract_form TaggedBody tag p = extract_prompt_from_block (Some (tag @ '' '' @ p)) (Some tag)"

definition tagged :: "string \<Rightarrow> bool" where
  "tagged s \<longleftrightarrow> list_ex (\<lambda>tag. match_tag tag s \<noteq> None) tag_patterns"

definition fenced :: "string \<Rightarrow> bool" where
  "fenced s \<longleftrightarrow> prefix ticks s \<and> suffix ticks s \<and> 6 \<le> length s"

subsection \<open>Payload keys\<close>







section \<open>A sample host\<close>

text \<open>
  A host for the worked examples: \<open>int\<close> of text reads decimal literals, \<open>float\<close> of text
  reads the same literals, \<open>json.loads\<close> and \<open>b64decode\<close> are given on the documents the
  examples use and fail on every other text, the backend answers 200 with an empty object,
  and no file or image operation fails.
\<close>

definition is_digit :: "char \<Rightarrow> bool" where
  "is_digit c \<longleftrightarrow> 48 \<le> (of_char c :: nat) \<and> (of_char c :: nat) \<le> 57"

definition digits_value :: "string \<Rightarrow> nat" where
  "digits_value ds = foldl (\<lambda>a c. 10 * a + (of_char c - 48)) 0 ds"

text \<open>
  Digits, with single underscores between them allowed: \<open>1_000\<close>, but not \<open>_1\<close>, \<open>1_\<close> or
  \<open>1__0\<close>.
\<close>

fun digit_groups :: "string \<Rightarrow> bool" where
  "digit_groups [] = False"
| "digit_groups [c] = is_digit c"
| "digit_groups (c # d # ds) =
     (is_digit c \<and> (if d = CHR ''_'' then digit_groups ds else digit_groups (d # ds)))"

definition parse_int :: "string \<Rightarrow> int option" where
  "parse_int s =
     (let t = strip s;
          neg = (t \<noteq> [] \<and> hd t = CHR ''-'');
          ds = (if t \<noteq> [] \<and> (hd t = CHR ''-'' \<or> hd t = CHR ''+'') then tl t else t)
      in if digit_groups ds
         then Some (if neg then - int (digits_value (filter is_digit ds))
                    else int (digits_value (filter is_digit ds)))
         else None)"

definition overlay_text :: string where
  "overlay_text = ''{\"endpoint_path\": \"/v2/generate\", \"sampler\": \"euler\", \"width\": 768}''"

definition sample_json :: "(string \<times> pyval) list" where
  "sample_json =
     [(''{}'', PDict []),
      (''[]'', PList []),
      (''{\"reuse_seed\": false}'', PDict [(''reuse_seed'', PBool False)]),
      (overlay_text,
         PDict [(''endpoint_path'', PStr ''/v2/generate''), (''sampler'', PStr ''euler''),
                (''width'', PInt 768)])]"

definition sample_world :: world where
  "sample_world =
     \<lparr>get_setting = (\<lambda>name. PNone),
      extension_path = ''/ext'',
      str_to_int = parse_int,
      str_to_float = (\<lambda>s. map_option (\<lambda>i. Finite (of_int i)) (parse_int s)),
      int_to_float = (\<lambda>i. Some (Finite (of_int i))),
      repr_of = (\<lambda>v. ''<object>''),
      json_loads = map_of sample_json,
      b64decode = (\<lambda>s. if s = ''aGk='' then Inr ''hi'' else Inl ''Incorrect padding''),
      http_post = (\<lambda>url payload. Response True 200 [] (Inr (PDict []))),
      makedirs_error = (\<lambda>path. None),
      open_error = (\<lambda>path. None),
      savev_error = (\<lambda>path. None),
      load_image_error = (\<lambda>url. None)\<rparr>"

definition with_settings :: "(string \<times> pyval) list \<Rightarrow> world \<Rightarrow> world" where
  "with_settings kvs w =
     w\<lparr>get_setting := (\<lambda>name. case map_of kvs name of Some v \<Rightarrow> v | None \<Rightarrow> PNone)\<rparr>"

definition answering :: "pyval \<Rightarrow> world \<Rightarrow> world" where
  "answering data w = w\<lparr>http_post := (\<lambda>url payload. Response True 200 [] (Inr data))\<rparr>"

subsection \<open>Settings and responses of the examples\<close>

definition seed_world :: world where
  "seed_world = with_settings [(''seed'', PStr ''5'')] sample_world"

definition seed_override_world :: world where
  "seed_override_world =
     with_settings [(''seed'', PStr ''5''), (''extra_payload'', PStr ''{\"reuse_seed\": false}'')]
       sample_world"

definition overlay_world :: world where
  "overlay_world =
     with_settings [(''url'', PStr ''http://host:7861/''), (''extra_payload'', PStr overlay_text)]
       sample_world"

definition slash_world :: world where
  "slash_world = with_settings [(''url'', PStr ''http://host:7861/'')] sample_world"

definition word_toggle_world :: world where
  "word_toggle_world =
     with_settings [(''img2img_enabled'', PStr ''on''), (''img2img_image'', PStr [])] sample_world"


definition all_keys_response :: pyval where
  "all_keys_response =
     PDict [(''file_path'', PStr ''/srv/a.png''), (''image_url'', PStr ''http://host/a.png''),
            (''image'', PStr ''eHg=''), (''images'', PList [PStr ''aGk='', PStr ''eHg=''])]"

definition empty_list_response :: pyval where
  "empty_list_response = PDict [(''images'', PList []), (''image'', PStr ''aGk='')]"

definition file_path_world :: world where
  "file_path_world = answering (PDict [(''file_path'', PStr ''/srv/out.png'')]) sample_world"


definition http_error_world :: world where
  "http_error_world =
     sample_world\<lparr>http_post := (\<lambda>url payload. Response False 500 ''Internal Server Error'' (Inl []))\<rparr>"

section \<open>Properties of prompt extraction\<close>

subsection \<open>Stripping\<close>

lemma rstrip_Nil_or_last: "rstrip s = [] \<or> \<not> is_space (last (rstrip s))"
  unfolding rstrip_def
  by (metis hd_dropWhile last_rev rev_is_Nil_conv)

lemma lstrip_Nil_or_hd: "lstrip s = [] \<or> \<not> is_space (hd (lstrip s))"
  unfolding lstrip_def by (metis hd_dropWhile)

lemma rstrip_hd: "rstrip s \<noteq> [] \<Longrightarrow> hd (rstrip s) = hd s"
  unfolding rstrip_def
  by (metis Nil_is_rev_conv dropWhile_eq_Nil_conv dropWhile_last hd_rev last_rev)

lemma lstrip_fixed: "s = [] \<or> \<not> is_space (hd s) \<Longrightarrow> lstrip s = s"
  unfolding lstrip_def by (cases s) auto

lemma rstrip_fixed: "s = [] \<or> \<not> is_space (last s) \<Longrightarrow> rstrip s = s"
  unfolding rstrip_def
  by (metis dropWhile_eq_self_iff hd_rev rev.simps(1) rev_rev_ident)

lemma length_lstrip: "length (lstrip s) \<le> length s"
  unfolding lstrip_def by (simp add: length_dropWhile_le)

lemma length_rstrip: "length (rstrip s) \<le> length s"
  unfolding rstrip_def by (metis length_rev length_dropWhile_le)

lemma length_strip: "length (strip s) \<le> length s"
  unfolding strip_def using length_lstrip [of s] length_rstrip [of "lstrip s"] by linarith

lemma strip_Nil [simp]: "strip [] = []"
  by (simp add: strip_def lstrip_def rstrip_def)

lemma strip_ends: "strip s = [] \<or> (\<not> is_space (hd (strip s)) \<and> \<not> is_space (last (strip s)))"
proof (cases "strip s = []")
  case True
  then show ?thesis by simp
next
  case False
  then have ne: "rstrip (lstrip s) \<noteq> []" by (simp add: strip_def)
  then have "lstrip s \<noteq> []" by (auto simp: rstrip_def)
  then have "\<not> is_space (hd (lstrip s))" using lstrip_Nil_or_hd [of s] by simp
  then have "\<not> is_space (hd (strip s))" using rstrip_hd [OF ne] by (simp add: strip_def)
  moreover have "\<not> is_space (last (strip s))"
    using rstrip_Nil_or_last [of "lstrip s"] ne by (simp add: strip_def)
  ultimately show ?thesis by simp
qed

lemma strip_fixed: "s = [] \<or> (\<not> is_space (hd s) \<and> \<not> is_space (last s)) \<Longrightarrow> strip s = s"
  unfolding strip_def using lstrip_fixed [of s] rstrip_fixed [of s] by auto

lemma strip_idem [simp]: "strip (strip s) = strip s"
  using strip_ends [of s] strip_fixed [of "strip s"] by blast

lemma tag_prefix_len: "lower (take (length tag) s) = tag \<Longrightarrow> length tag \<le> length s"
proof -
  assume h: "lower (take (length tag) s) = tag"
  have "length (lower (take (length tag) s)) = min (length s) (length tag)"
    by (simp add: lower_def)
  with h show ?thesis by simp
qed

lemma match_tag_length: "match_tag tag s = Some r \<Longrightarrow> length r + length tag \<le> length s"
proof -
  assume m: "match_tag tag s = Some r"
  then have l: "length tag \<le> length s"
    by (auto simp: match_tag_def Let_def split: if_splits dest: tag_prefix_len)
  have "drop (length tag) s = r \<or> (\<exists>c. drop (length tag) s = c # r)"
    using m by (auto simp: match_tag_def Let_def split: if_splits list.splits)
  then have "length (drop (length tag) s) = length r \<or>
             length (drop (length tag) s) = Suc (length r)"
    by (metis length_Cons)
  with l show ?thesis by auto
qed

lemma length_sub_tag: "length (sub_tag tag s) \<le> length s"
proof (cases "match_tag tag s")
  case None
  then show ?thesis by (simp add: sub_tag_def)
next
  case (Some r)
  then show ?thesis
    using match_tag_length [OF Some] length_lstrip [of r] by (simp add: sub_tag_def)
qed

lemma length_sub_tag_match:
  "match_tag tag s \<noteq> None \<Longrightarrow> tag \<noteq> [] \<Longrightarrow> length (sub_tag tag s) < length s"
proof -
  assume "match_tag tag s \<noteq> None" and t: "tag \<noteq> []"
  then obtain r where r: "match_tag tag s = Some r" by auto
  obtain c cs where "tag = c # cs" using t by (cases tag) auto
  then show ?thesis
    using match_tag_length [OF r] length_lstrip [of r] r by (simp add: sub_tag_def)
qed

lemma sub_tag_no_match: "match_tag tag s = None \<Longrightarrow> sub_tag tag s = s"
  by (simp add: sub_tag_def)

lemma strip_tags_unfold:
  "strip_tags s = sub_tag ''lightdiffusion'' (sub_tag ''generateimage'' s)"
  by (simp add: strip_tags_def tag_patterns_def)

lemma tagged_unfold:
  "tagged s \<longleftrightarrow> match_tag ''generateimage'' s \<noteq> None \<or> match_tag ''lightdiffusion'' s \<noteq> None"
  by (simp add: tagged_def tag_patterns_def)

lemma length_strip_tags: "length (strip_tags s) \<le> length s"
  unfolding strip_tags_unfold
  using length_sub_tag [of "''lightdiffusion''" "sub_tag ''generateimage'' s"]
        length_sub_tag [of "''generateimage''" s] by linarith

lemma strip_tags_untagged: "\<not> tagged s \<Longrightarrow> strip_tags s = s"
  by (simp add: strip_tags_unfold tagged_unfold sub_tag_no_match)

lemma strip_tags_tagged: "tagged s \<Longrightarrow> length (strip_tags s) < length s"
proof (cases "match_tag ''generateimage'' s")
  case None
  assume "tagged s"
  with None have "match_tag ''lightdiffusion'' s \<noteq> None" by (simp add: tagged_unfold)
  then show ?thesis
    using length_sub_tag_match [of "''lightdiffusion''" s] None
    by (simp add: strip_tags_unfold sub_tag_no_match)
next
  case (Some r)
  then have "length (sub_tag ''generateimage'' s) < length s"
    using length_sub_tag_match [of "''generateimage''" s] by simp
  then show ?thesis
    unfolding strip_tags_unfold
    using length_sub_tag [of "''lightdiffusion''" "sub_tag ''generateimage'' s"] by linarith
qed

lemma length_strip_ticks: "length (strip_ticks s) \<le> length s"
proof -
  have "length (strip_ticks s) \<le> length (strip s)"
    unfolding strip_ticks_def Let_def
    using length_strip [of "take (length (strip s) - 6) (drop 3 (strip s))"] length_strip [of "strip s"]
    by (auto simp del: strip_idem)
  then show ?thesis using length_strip [of s] by linarith
qed

lemma strip_ticks_unfenced: "strip s = s \<Longrightarrow> \<not> fenced s \<Longrightarrow> strip_ticks s = s"
  by (auto simp: strip_ticks_def fenced_def Let_def)

lemma strip_ticks_fenced: "strip s = s \<Longrightarrow> fenced s \<Longrightarrow> length (strip_ticks s) < length s"
proof -
  assume s: "strip s = s" and f: "fenced s"
  have "length (strip_ticks s) \<le> length (take (length s - 6) (drop 3 s))"
    using s f length_strip [of "take (length s - 6) (drop 3 s)"]
    by (simp add: strip_ticks_def fenced_def Let_def)
  also have "\<dots> < length s" using f by (auto simp: fenced_def)
  finally show ?thesis .
qed

lemma length_clean_body: "length (clean_body s) \<le> length (strip_tags (strip_ticks s))"
  unfolding clean_body_def Let_def
  using length_strip [of "strip_tags (strip_ticks s)"]
        length_strip [of "strip (strip_tags (strip_ticks (strip_tags (strip_ticks s))))"]
        length_strip [of "strip_tags (strip_ticks (strip_tags (strip_ticks s)))"]
        length_strip_tags [of "strip_ticks (strip_tags (strip_ticks s))"]
        length_strip_ticks [of "strip_tags (strip_ticks s)"]
  by (auto simp del: strip_idem)

lemma clean_body_fixed_iff:
  assumes s: "strip s = s"
  shows "clean_body s = s \<longleftrightarrow> \<not> tagged s \<and> \<not> fenced s"
proof
  assume fx: "clean_body s = s"
  show "\<not> tagged s \<and> \<not> fenced s"
  proof (rule ccontr)
    assume "\<not> (\<not> tagged s \<and> \<not> fenced s)"
    then consider "fenced s" | "\<not> fenced s" "tagged s" by blast
    then have "length (strip_tags (strip_ticks s)) < length s"
    proof cases
      case 1
      then show ?thesis
        using strip_ticks_fenced [OF s] length_strip_tags [of "strip_ticks s"] by fastforce
    next
      case 2
      then show ?thesis
        using strip_ticks_unfenced [OF s] strip_tags_tagged [of s] by simp
    qed
    then have "length (clean_body s) < length s"
      using length_clean_body [of s] by linarith
    with fx show False by simp
  qed
next
  assume c: "\<not> tagged s \<and> \<not> fenced s"
  then have 1: "strip_ticks s = s" and 2: "strip_tags s = s"
    using strip_ticks_unfenced [OF s] strip_tags_untagged by auto
  show "clean_body s = s"
    by (simp add: clean_body_def Let_def 1 2 s)
qed

lemma clean_body_stripped: "strip (clean_body s) = clean_body s"
  by (simp add: clean_body_def Let_def)

lemma first_info_match_stripped: "first_info_match tags info = Some g \<Longrightarrow> strip g = g"
  by (induction tags) (auto split: option.splits)

lemma info_prompt_stripped: "info_prompt info = Some g \<Longrightarrow> strip g = g"
  by (auto simp: info_prompt_def split: option.splits if_splits dest: first_info_match_stripped)

lemma extract_stripped:
  "strip (extract_prompt_from_block codeblock lang) = extract_prompt_from_block codeblock lang"
  by (auto simp: extract_prompt_from_block_def Let_def clean_body_stripped
           split: option.splits dest: info_prompt_stripped)

lemma extract_body_only:
  "extract_prompt_from_block (Some s) (Some []) = clean_body (strip s)"
  by (simp add: extract_prompt_from_block_def or_empty_def)

lemma reextract_iff:
  "extract_prompt_from_block (Some (extract_prompt_from_block codeblock lang)) (Some []) =
     extract_prompt_from_block codeblock lang \<longleftrightarrow>
   \<not> tagged (extract_prompt_from_block codeblock lang) \<and>
   \<not> fenced (extract_prompt_from_block codeblock lang)"
  by (simp add: extract_body_only extract_stripped clean_body_fixed_iff)

text \<open>
  C5 (as amended). For every tag, every prompt and each of the three block forms, applying
  the extractor to its own output (as body, with an empty info string) returns the same
  string exactly when that output neither starts with a recognised tag nor is wrapped in
  triple backticks.
\<close>

theorem reextract_fixed_iff:
  "extract_prompt_from_block (Some (extract_form f tag p)) (Some []) = extract_form f tag p \<longleftrightarrow>
   \<not> tagged (extract_form f tag p) \<and> \<not> fenced (extract_form f tag p)"
  by (cases f) (simp_all add: reextract_iff)

theorem reextract_fixed_iff_witness:
  "extract_form FencedBody ''generateimage'' ''a cat, oil painting'' = ''a cat, oil painting'' \<and>
   extract_form OneLiner ''generateimage'' ''a cat, oil painting'' = ''a cat, oil painting'' \<and>
   extract_form TaggedBody ''generateimage'' ''a cat, oil painting'' = ''a cat, oil painting'' \<and>
   \<not> tagged ''a cat, oil painting'' \<and> \<not> fenced ''a cat, oil painting'' \<and>
   extract_prompt_from_block (Some ''a cat, oil painting'') (Some []) = ''a cat, oil painting''"
proof -
  have 1: "extract_form FencedBody ''generateimage'' ''a cat, oil painting'' = ''a cat, oil painting''"
    by code_simp
  have 2: "extract_form OneLiner ''generateimage'' ''a cat, oil painting'' = ''a cat, oil painting''"
    by code_simp
  have 3: "extract_form TaggedBody ''generateimage'' ''a cat, oil painting'' = ''a cat, oil painting''"
    by code_simp
  have 4: "\<not> tagged ''a cat, oil painting''" by code_simp
  have 5: "\<not> fenced ''a cat, oil painting''" by code_simp
  have "extract_prompt_from_block (Some ''a cat, oil painting'') (Some []) = ''a cat, oil painting''"
    using reextract_fixed_iff [of FencedBody "''generateimage''" "''a cat, oil painting''"] 4 5
    unfolding 1 by simp
  with 1 2 3 4 5 show ?thesis by simp
qed

text \<open>
  The claim as stated fails: a one-line block whose prompt starts with the other tag is
  extracted to the prompt, and extracting that again removes the tag.
\<close>

theorem reextract_counterexample:
  "extract_form OneLiner ''generateimage'' ''lightdiffusion logo, neon'' = ''lightdiffusion logo, neon'' \<and>
   extract_prompt_from_block (Some ''lightdiffusion logo, neon'') (Some []) = ''logo, neon''"
  by code_simp

section \<open>Properties of a run\<close>

subsection \<open>What a run appends to the trace\<close>

lemma appends_iff:
  "appends out r r' \<longleftrightarrow> (\<exists>es. trace r' = trace r @ es \<and> list_all (local_event out) es)"
proof
  assume "appends out r r'"
  then have "trace r' = trace r @ drop (length (trace r)) (trace r')"
    and "list_all (local_event out) (drop (length (trace r)) (trace r'))"
    unfolding appends_def by (metis append_take_drop_id, simp)
  then show "\<exists>es. trace r' = trace r @ es \<and> list_all (local_event out) es" by blast
next
  assume "\<exists>es. trace r' = trace r @ es \<and> list_all (local_event out) es"
  then show "appends out r r'" by (auto simp: appends_def)
qed

lemma appends_same: "trace r' = trace r \<Longrightarrow> appends out r r'"
  by (simp add: appends_def)

lemma appends_refl: "appends out r r"
  by (simp add: appends_def)

lemma appends_trans: "appends out a b \<Longrightarrow> appends out b c \<Longrightarrow> appends out a c"
  unfolding appends_iff by auto

lemma appends_emit: "local_event out e \<Longrightarrow> appends out r (emit e r)"
  by (simp add: appends_def emit_def)

lemma appends_emit_after: "local_event out e \<Longrightarrow> appends out r r' \<Longrightarrow> appends out r (emit e r')"
  using appends_trans appends_emit by blast

lemma trace_show_loading [simp]: "trace (show_loading b r) = trace r"
  by (simp add: show_loading_def)

lemma appends_show_loading: "appends out r r' \<Longrightarrow> appends out r (show_loading b r')"
  by (simp add: appends_def)

lemma appends_show_error: "appends out r (show_error_message msg r)"
  unfolding show_error_message_def
  by (intro appends_show_loading appends_emit) (simp add: local_event_def)

lemma appends_set_image_from_path: "appends out r (set_image_from_path p r)"
  unfolding set_image_from_path_def
  by (intro appends_emit_after appends_show_loading appends_refl) (simp add: local_event_def)

lemma appends_set_image_from_url:
  "cb = None \<or> cb = Some out \<Longrightarrow> appends out r (set_image_from_url w u cb r)"
proof -
  assume cb: "cb = None \<or> cb = Some out"
  define r1 where "r1 = show_loading True (r\<lparr>wdg := (wdg r)\<lparr>current_url := Some u\<rparr>\<rparr>)"
  have a: "appends out r r1" by (rule appends_same) (simp add: r1_def)
  show ?thesis
  proof (cases "load_image_error w u")
    case None
    have "local_event out (LoadFromUrl u cb)" using cb by (auto simp: local_event_def)
    then show ?thesis
      using None a appends_emit_after by (simp add: set_image_from_url_def r1_def)
  next
    case (Some m)
    have "appends out r (emit (SetIcon ''image-missing'')
            (show_loading False (emit (Print (''Error loading image from URL: '' @ m)) r1)))"
      by (intro appends_emit_after appends_show_loading a) (simp_all add: local_event_def)
    then show ?thesis using Some by (simp add: set_image_from_url_def r1_def)
  qed
qed

lemma appends_save_image: "appends out r (snd (save_image w out r))"
  unfolding save_image_def Let_def
  by (auto split: option.splits simp: local_event_def
       intro!: appends_emit_after appends_refl)

lemma appends_download_and_save: "appends out r (snd (download_and_save w out r))"
  unfolding download_and_save_def
  by (auto split: option.splits intro!: appends_refl appends_save_image appends_set_image_from_url)

lemma appends_write_decoded: "appends out r (snd (write_decoded w v out r))"
  unfolding write_decoded_def Let_def
  by (auto split: option.splits pyval.splits sum.splits simp: local_event_def
       intro!: appends_emit_after appends_refl)

lemma appends_save_base64_png: "appends out r (snd (save_base64_png w v out r))"
  unfolding save_base64_png_def
  by (auto split: sum.splits bool.splits intro!: appends_refl appends_write_decoded)

lemma appends_interpret_response: "appends out r (snd (interpret_response w data out r))"
proof (cases "response_shape data")
  case None
  then show ?thesis by (simp add: interpret_response_def appends_show_error)
next
  case (Some sh)
  show ?thesis
  proof (cases sh)
    case (ImageList x)
    have "appends out r (snd (save_base64_png w x out r))" by (rule appends_save_base64_png)
    then show ?thesis
      using Some ImageList appends_set_image_from_path appends_trans
      by (auto simp: interpret_response_def split: prod.splits option.splits)
  next
    case (SingleImage x)
    have "appends out r (snd (save_base64_png w (PStr x) out r))" by (rule appends_save_base64_png)
    then show ?thesis
      using Some SingleImage appends_set_image_from_path appends_trans
      by (auto simp: interpret_response_def split: prod.splits option.splits)
  next
    case (ImageUrl u)
    then show ?thesis
      using Some by (simp add: interpret_response_def appends_set_image_from_url)
  next
    case (FilePath f)
    then show ?thesis
      using Some appends_trans [OF appends_set_image_from_path appends_download_and_save]
      by (simp add: interpret_response_def)
  qed
qed

lemma appends_try:
  "appends (cache_out w u) (dispatched w p r) (snd (generate_image_try w p u r))"
  unfolding generate_image_try_def dispatched_def Let_def
  by (auto split: sum.splits request.splits http_result.splits
       intro!: appends_refl appends_show_error appends_interpret_response)

lemma appends_generate_image:
  "appends (cache_out w u) (dispatched w p r) (generate_image w p u r)"
proof (cases "generate_image_try w p u r")
  case (Pair e r')
  have a: "appends (cache_out w u) (dispatched w p r) r'"
    using appends_try [of w u p r] Pair by simp
  show ?thesis
  proof (cases e)
    case None
    then show ?thesis using a Pair by (simp add: generate_image_def)
  next
    case (Some x)
    have "appends (cache_out w u) r' (show_error_message (str_exn x) (emit (PrintExc x) r'))"
      by (rule appends_trans [OF appends_emit appends_show_error]) (simp add: local_event_def)
    then show ?thesis using a Pair Some appends_trans by (auto simp: generate_image_def)
  qed
qed

lemma map_filter_append:
  "List.map_filter f (xs @ ys) = List.map_filter f xs @ List.map_filter f ys"
  by (simp add: List.map_filter_def)

lemma appends_posts: "appends out r r' \<Longrightarrow> posts r' = posts r"
proof -
  assume "appends out r r'"
  then obtain es where es: "trace r' = trace r @ es" "list_all (local_event out) es"
    unfolding appends_iff by blast
  have "List.map_filter post_of es = []"
    using es(2) by (induction es) (auto simp: List.map_filter_simps local_event_def)
  then show ?thesis by (simp add: posts_def es(1) map_filter_append)
qed


lemma posts_dispatched:
  "posts (dispatched w p r) =
     posts r @ (case prepare w p of Inr (Dispatch url payload) \<Rightarrow> [(url, payload)] | _ \<Rightarrow> [])"
  by (auto simp: dispatched_def posts_def emit_def map_filter_append List.map_filter_simps
           split: sum.splits request.splits)


lemma posts_generate_image:
  "posts (generate_image w p u r) =
     posts r @ (case prepare w p of Inr (Dispatch url payload) \<Rightarrow> [(url, payload)] | _ \<Rightarrow> [])"
  using appends_posts [OF appends_generate_image] posts_dispatched by simp


subsection \<open>The request that is sent\<close>

lemma prepare_DispatchD:
  assumes "prepare w prompt = Inr (Dispatch url payload)"
  shows "\<exists>pos img d.
           positive w prompt = Inr pos \<and> img2img_image w = Inr img \<and>
           \<not> (img2img_enabled w \<and> img = []) \<and> extra_payload w = PDict d \<and>
           url = base_url w @ py_str w (case map_of d ''endpoint_path'' of
                                          Some v \<Rightarrow> v | None \<Rightarrow> PStr ''/api/generate'') \<and>
           payload = merge_extra (PDict d) (with_extras w (base_payload w pos))"
  using assms
  by (auto simp: prepare_def endpoint_path_def Let_def
           split: sum.splits if_splits pyval.splits)

lemma map_of_filter_key:
  "map_of (filter (\<lambda>(k, v). k \<noteq> e) d) k = (if k = e then None else map_of d k)"
  by (induction d) auto

lemma merge_extra_apply:
  "merge_extra (PDict d) P k =
     (if k = ''endpoint_path'' then P k
      else case map_of d k of Some v \<Rightarrow> Some v | None \<Rightarrow> P k)"
  by (simp add: merge_extra_def map_add_def map_of_filter_key)

lemma with_extras_other:
  "k \<noteq> ''steps'' \<Longrightarrow> k \<noteq> ''guidance_scale'' \<Longrightarrow> k \<noteq> ''seed'' \<Longrightarrow> with_extras w P k = P k"
  by (simp add: with_extras_def Let_def split: option.splits)



lemma with_extras_seed:
  "with_extras w P ''seed'' = (if 0 \<le> seed w then Some (PInt (seed w)) else P ''seed'')"
  by (simp add: with_extras_def Let_def split: option.splits)

lemma base_payload_reuse_seed:
  "base_payload w pos ''reuse_seed'' = Some (PBool (seed w \<noteq> - 1 \<or> get_bool w ''reuse_seed'' False))"
  by (simp add: base_payload_def payload_items_def)

lemma base_payload_endpoint_path: "base_payload w pos ''endpoint_path'' = None"
  by (simp add: base_payload_def payload_items_def)


lemma posts_empty: "posts \<lparr>trace = [], wdg = wd\<rparr> = []"
  by (simp add: posts_def List.map_filter_simps)

lemma sent_iff:
  "(url, payload) \<in> set (posts (generate_image w prompt msg_uuid \<lparr>trace = [], wdg = wd\<rparr>)) \<longleftrightarrow>
   prepare w prompt = Inr (Dispatch url payload)"
  by (auto simp: posts_generate_image posts_empty split: sum.splits request.splits)

















text \<open>
  C1 (as amended). When the seed setting is read as an integer that is at least 0, the JSON
  body of every request that is sent has \<open>reuse_seed\<close> equal to true, for all values of the
  other settings, unless the extra options themselves hold a \<open>reuse_seed\<close> key: the extra
  options are merged last, so then the body holds their value.
\<close>

theorem seed_forces_reuse_seed:
  assumes "0 \<le> seed w"
    and "(url, payload) \<in> set (posts (generate_image w prompt msg_uuid \<lparr>trace = [], wdg = wd\<rparr>))"
  shows "payload ''reuse_seed'' =
           Some (case dict_get (extra_payload w) ''reuse_seed'' of
                   Some v \<Rightarrow> v | None \<Rightarrow> PBool True)"
proof -
  from assms(2) have "prepare w prompt = Inr (Dispatch url payload)" by (simp add: sent_iff)
  then obtain pos d where d: "extra_payload w = PDict d"
    and p: "payload = merge_extra (PDict d) (with_extras w (base_payload w pos))"
    using prepare_DispatchD by blast
  have "seed w \<noteq> - 1" using assms(1) by simp
  then have "with_extras w (base_payload w pos) ''reuse_seed'' = Some (PBool True)"
    by (simp add: with_extras_other base_payload_reuse_seed)
  then show ?thesis
    by (simp add: p d merge_extra_apply dict_get_def split: option.splits)
qed

text \<open>
  A seed of 5 and no extra options: one request is sent, with \<open>reuse_seed\<close> true.
\<close>

theorem seed_forces_reuse_seed_witness:
  "0 \<le> seed seed_world \<and>
   posts (generate_image seed_world ''a cat'' None new_run) \<noteq> [] \<and>
   list_all (\<lambda>(url, payload). payload ''reuse_seed'' = Some (PBool True))
     (posts (generate_image seed_world ''a cat'' None new_run))"
proof -
  have s: "0 \<le> seed seed_world" by code_simp
  have e: "dict_get (extra_payload seed_world) ''reuse_seed'' = None" by code_simp
  have n: "posts (generate_image seed_world ''a cat'' None new_run) \<noteq> []" by code_simp
  have "\<forall>(url, payload) \<in> set (posts (generate_image seed_world ''a cat'' None new_run)).
          payload ''reuse_seed'' = Some (PBool True)"
    using seed_forces_reuse_seed [OF s, of _ _ "''a cat''" None new_widget] e
    by (auto simp: new_run_def)
  then show ?thesis using s n by (simp add: list_all_iff)
qed

text \<open>
  The claim as stated fails: with a seed of 5 and the extra options
  \<open>{"reuse_seed": false}\<close> the body that is sent has \<open>reuse_seed\<close> false.
\<close>

theorem seed_reuse_counterexample:
  "0 \<le> seed seed_override_world \<and>
   map (\<lambda>(url, payload). payload ''reuse_seed'')
     (posts (generate_image seed_override_world ''a cat'' None new_run)) = [Some (PBool False)]"
  by code_simp

text \<open>
  C7. When the \<open>extra_payload\<close> setting holds text that \<open>json.loads\<close> reads as an
  object, the body of every request that is sent maps each key of that object other than
  \<open>endpoint_path\<close> to the object's value, leaves every key that the object lacks at the
  value the builder gave it (the dictionary literal with \<open>steps\<close>, \<open>guidance_scale\<close> and
  \<open>seed\<close> attached), and has no \<open>endpoint_path\<close> key.
\<close>

theorem overlay_last_wins:
  assumes "get_setting w ''extra_payload'' = PStr raw" and "raw \<noteq> []"
    and "json_loads w raw = Some (PDict d)"
    and "(url, payload) \<in> set (posts (generate_image w prompt msg_uuid \<lparr>trace = [], wdg = wd\<rparr>))"
  shows "\<exists>pos. positive w prompt = Inr pos \<and>
           (\<forall>k v. k \<noteq> ''endpoint_path'' \<and> map_of d k = Some v \<longrightarrow> payload k = Some v) \<and>
           (\<forall>k. map_of d k = None \<longrightarrow> payload k = with_extras w (base_payload w pos) k) \<and>
           payload ''endpoint_path'' = None"
proof -
  have e: "extra_payload w = PDict d"
    using assms(1-3) by (simp add: extra_payload_def py_or_def)
  from assms(4) have "prepare w prompt = Inr (Dispatch url payload)" by (simp add: sent_iff)
  then obtain pos where pos: "positive w prompt = Inr pos"
    and p: "payload = merge_extra (PDict d) (with_extras w (base_payload w pos))"
    using prepare_DispatchD [of w prompt url payload] e by auto
  have "with_extras w (base_payload w pos) ''endpoint_path'' = None"
    by (simp add: with_extras_other base_payload_endpoint_path)
  then show ?thesis
    using pos by (auto simp: p merge_extra_apply)
qed

text \<open>
  Extra options with an endpoint path, a new key and an override of \<open>width\<close>.
\<close>

theorem overlay_last_wins_witness:
  "get_setting overlay_world ''extra_payload'' = PStr overlay_text \<and>
   json_loads overlay_world overlay_text =
     Some (PDict [(''endpoint_path'', PStr ''/v2/generate''), (''sampler'', PStr ''euler''),
                  (''width'', PInt 768)]) \<and>
   posts (generate_image overlay_world ''a cat'' None new_run) \<noteq> [] \<and>
   list_all (\<lambda>(url, payload).
       payload ''sampler'' = Some (PStr ''euler'') \<and> payload ''width'' = Some (PInt 768) \<and>
       payload ''endpoint_path'' = None)
     (posts (generate_image overlay_world ''a cat'' None new_run))"
proof -
  let ?d = "[(''endpoint_path'', PStr ''/v2/generate''), (''sampler'', PStr ''euler''),
             (''width'', PInt 768)]"
  have g: "get_setting overlay_world ''extra_payload'' = PStr overlay_text" by code_simp
  have t: "overlay_text \<noteq> []" by code_simp
  have j: "json_loads overlay_world overlay_text = Some (PDict ?d)" by code_simp
  have n: "posts (generate_image overlay_world ''a cat'' None new_run) \<noteq> []" by code_simp
  have "\<forall>(url, payload) \<in> set (posts (generate_image overlay_world ''a cat'' None new_run)).
          payload ''sampler'' = Some (PStr ''euler'') \<and> payload ''width'' = Some (PInt 768) \<and>
          payload ''endpoint_path'' = None"
    using overlay_last_wins [OF g t j, of _ _ "''a cat''" None new_widget]
    by (fastforce simp: new_run_def)
  then show ?thesis using g j n by (simp add: list_all_iff)
qed

text \<open>
  C8 (as amended). Every request that is sent goes to the base URL followed by the endpoint
  path, where the base URL is \<open>str\<close> of the \<open>url\<close> setting (\<open>http://localhost:7861\<close> when it
  is unset or empty) with every trailing slash removed, and the endpoint path is \<open>str\<close> of
  the \<open>endpoint_path\<close> value of the extra options when they have one and \<open>/api/generate\<close>
  otherwise. (A request is sent only when the extra options are an object.)
\<close>

theorem post_url:
  assumes "(url, payload) \<in> set (posts (generate_image w prompt msg_uuid \<lparr>trace = [], wdg = wd\<rparr>))"
  shows "url =
           rstrip_slash (py_str w (py_or (get_setting w ''url'') (PStr ''http://localhost:7861'')))
           @ py_str w (case dict_get (extra_payload w) ''endpoint_path'' of
                         Some v \<Rightarrow> v | None \<Rightarrow> PStr ''/api/generate'')"
proof -
  from assms have "prepare w prompt = Inr (Dispatch url payload)" by (simp add: sent_iff)
  then show ?thesis
    using prepare_DispatchD [of w prompt url payload]
    by (auto simp: base_url_def dict_get_def)
qed

theorem post_url_witness:
  "posts (generate_image overlay_world ''a cat'' None new_run) \<noteq> [] \<and>
   list_all (\<lambda>(url, payload). url = ''http://host:7861/v2/generate'')
     (posts (generate_image overlay_world ''a cat'' None new_run))"
proof -
  have n: "posts (generate_image overlay_world ''a cat'' None new_run) \<noteq> []" by code_simp
  have u: "rstrip_slash (py_str overlay_world
               (py_or (get_setting overlay_world ''url'') (PStr ''http://localhost:7861'')))
           @ py_str overlay_world
               (case dict_get (extra_payload overlay_world) ''endpoint_path'' of
                  Some v \<Rightarrow> v | None \<Rightarrow> PStr ''/api/generate'') = ''http://host:7861/v2/generate''"
    by code_simp
  have "\<forall>(url, payload) \<in> set (posts (generate_image overlay_world ''a cat'' None new_run)).
          url = ''http://host:7861/v2/generate''"
    using post_url [of _ _ overlay_world "''a cat''" None new_widget] u
    by (auto simp: new_run_def)
  then show ?thesis using n by (simp add: list_all_iff)
qed

text \<open>
  The claim as stated fails: the URL is not the plain concatenation of the \<open>url\<close> setting
  and the endpoint path, since a trailing slash of the setting is dropped.
\<close>

theorem post_url_counterexample:
  "get_setting slash_world ''url'' = PStr ''http://host:7861/'' \<and>
   map fst (posts (generate_image slash_world ''a cat'' None new_run)) =
     [''http://host:7861/api/generate''] \<and>
   map fst (posts (generate_image slash_world ''a cat'' None new_run)) \<noteq>
     [''http://host:7861/'' @ ''/api/generate'']"
  by code_simp

text \<open>
  C3. The check for a missing source image reads the toggle with \<open>bool(int(v or 0))\<close> alone,
  while the payload reads the same setting with \<open>get_bool\<close>, which also accepts the words
  \<open>true\<close>, \<open>yes\<close> and \<open>on\<close>. With the setting \<open>"on"\<close> and an empty image path the
  request is not rejected: it is sent with \<open>img2img_enabled\<close> true and no image.
\<close>

theorem img2img_word_toggle_dispatched:
  "get_bool word_toggle_world ''img2img_enabled'' False \<and>
   img2img_image word_toggle_world = Inr [] \<and>
   map (\<lambda>(url, payload). (payload ''img2img_enabled'', payload ''img2img_image''))
     (posts (generate_image word_toggle_world ''a cat'' None new_run)) =
     [(Some (PBool True), Some PNone)]"
  by code_simp


















subsection \<open>The response\<close>

lemma response_shape_None:
  assumes "images_first data = None" and "str_at data ''image'' = None"
    and "str_at data ''image_url'' = None" and "str_at data ''file_path'' = None"
  shows "response_shape data = None"
  using assms by (simp add: response_shape_def)

lemma reported_show_error: "reported msg (show_error_message msg r)"
  by (simp add: reported_def show_error_message_def show_loading_def emit_def)

lemma image_events_show_error: "image_events (show_error_message msg r) = image_events r"
  by (simp add: image_events_def show_error_message_def show_loading_def emit_def)

lemma image_events_emit_Post: "image_events (emit (Post url payload) r) = image_events r"
  by (simp add: image_events_def emit_def)

lemma generate_image_response:
  assumes "prepare w prompt = Inr (Dispatch url payload)"
    and "http_post w url payload = Response True status body (Inr data)"
  shows "generate_image_try w prompt msg_uuid r =
           interpret_response w data (cache_out w msg_uuid) (emit (Post url payload) r)"
  using assms by (simp add: generate_image_try_def Let_def)

text \<open>
  C4. For every response JSON value in which none of the four interpretations matches (no
  \<open>images\<close> key holding a non-empty list, no string-valued \<open>image\<close>, \<open>image_url\<close> or
  \<open>file_path\<close> key), the normalizer ends in \<open>show_error_message\<close> with the text
  "Unexpected response format from backend."; the run of \<open>generate_image\<close> then ends with
  that message printed and the loading state off, and sets no image on the widget.
\<close>

theorem unexpected_format:
  assumes "images_first data = None" and "str_at data ''image'' = None"
    and "str_at data ''image_url'' = None" and "str_at data ''file_path'' = None"
  shows "interpret_response w data out r =
           (None, show_error_message ''Unexpected response format from backend.'' r) \<and>
         (prepare w prompt = Inr (Dispatch url payload) \<and>
          http_post w url payload = Response True status body (Inr data) \<longrightarrow>
            generate_image w prompt msg_uuid r =
              show_error_message ''Unexpected response format from backend.''
                (emit (Post url payload) r) \<and>
            reported ''Unexpected response format from backend.''
              (generate_image w prompt msg_uuid r) \<and>
            image_events (generate_image w prompt msg_uuid r) = image_events r)"
proof -
  have n: "response_shape data = None" using assms by (rule response_shape_None)
  then have i: "\<And>out r. interpret_response w data out r =
           (None, show_error_message ''Unexpected response format from backend.'' r)"
    by (simp add: interpret_response_def)
  show ?thesis
  proof (intro conjI impI)
    show "interpret_response w data out r =
           (None, show_error_message ''Unexpected response format from backend.'' r)"
      by (rule i)
  next
    assume a: "prepare w prompt = Inr (Dispatch url payload) \<and>
               http_post w url payload = Response True status body (Inr data)"
    then have g: "generate_image w prompt msg_uuid r =
              show_error_message ''Unexpected response format from backend.''
                (emit (Post url payload) r)"
      using generate_image_response [of w prompt url payload status body data msg_uuid r] i
      by (simp add: generate_image_def)
    show "generate_image w prompt msg_uuid r =
              show_error_message ''Unexpected response format from backend.''
                (emit (Post url payload) r)" by (rule g)
    show "reported ''Unexpected response format from backend.''
              (generate_image w prompt msg_uuid r)"
      unfolding g by (rule reported_show_error)
    show "image_events (generate_image w prompt msg_uuid r) = image_events r"
      unfolding g by (simp add: image_events_show_error image_events_emit_Post)
  qed
qed

theorem unexpected_format_witness:
  "images_first (PDict [(''status'', PStr ''queued'')]) = None \<and>
   str_at (PDict [(''status'', PStr ''queued'')]) ''image'' = None \<and>
   str_at (PDict [(''status'', PStr ''queued'')]) ''image_url'' = None \<and>
   str_at (PDict [(''status'', PStr ''queued'')]) ''file_path'' = None \<and>
   reported ''Unexpected response format from backend.''
     (generate_image (answering (PDict [(''status'', PStr ''queued'')]) sample_world)
        ''a cat'' None new_run) \<and>
   image_events (generate_image (answering (PDict [(''status'', PStr ''queued'')]) sample_world)
        ''a cat'' None new_run) = []"
proof -
  let ?d = "PDict [(''status'', PStr ''queued'')]"
  let ?w = "answering ?d sample_world"
  have 1: "images_first ?d = None" by code_simp
  have 2: "str_at ?d ''image'' = None" by code_simp
  have 3: "str_at ?d ''image_url'' = None" by code_simp
  have 4: "str_at ?d ''file_path'' = None" by code_simp
  obtain url payload where p: "prepare ?w ''a cat'' = Inr (Dispatch url payload)"
  proof -
    have "case prepare ?w ''a cat'' of Inr (Dispatch u p) \<Rightarrow> True | _ \<Rightarrow> False" by code_simp
    then show ?thesis using that by (auto split: sum.splits request.splits)
  qed
  have h: "http_post ?w url payload = Response True 200 [] (Inr ?d)"
    by (simp add: answering_def)
  have "reported ''Unexpected response format from backend.''
          (generate_image ?w ''a cat'' None new_run) \<and>
        image_events (generate_image ?w ''a cat'' None new_run) = image_events new_run"
    using unexpected_format [OF 1 2 3 4, where w = ?w and prompt = "''a cat''" and url = url
        and payload = payload and status = 200 and body = "[]" and msg_uuid = None
        and r = new_run] p h
    by blast
  moreover have "image_events new_run = []" by code_simp
  ultimately show ?thesis using 1 2 3 4 by simp
qed

lemma interpret_by_shape:
  "response_shape data = response_shape data' \<Longrightarrow>
   interpret_response w data out r = interpret_response w data' out r"
  by (simp add: interpret_response_def)

lemma shape_only_images: "response_shape (PDict [(''images'', PList [x])]) = Some (ImageList x)"
  by (simp add: response_shape_def images_first_def dict_get_def)

lemma shape_only_image: "response_shape (PDict [(''image'', PStr s)]) = Some (SingleImage s)"
  by (simp add: response_shape_def images_first_def str_at_def dict_get_def)

lemma shape_only_image_url: "response_shape (PDict [(''image_url'', PStr s)]) = Some (ImageUrl s)"
  by (simp add: response_shape_def images_first_def str_at_def dict_get_def)

lemma shape_only_file_path: "response_shape (PDict [(''file_path'', PStr s)]) = Some (FilePath s)"
  by (simp add: response_shape_def images_first_def str_at_def dict_get_def)

text \<open>
  C2 (as amended). For every response JSON value the normalizer consumes at most one
  response shape, chosen in the fixed order image list, single image, URL, file path, where
  the \<open>images\<close> key counts only when it holds a non-empty list and the other three keys
  only when they hold a string: the run is the one for a response that has the chosen key
  alone (for the image list, its first element alone). When none counts, no shape is
  consumed.
\<close>

theorem response_priority:
  "(images_first data = Some x \<longrightarrow>
      response_shape data = Some (ImageList x) \<and>
      interpret_response w data out r =
        interpret_response w (PDict [(''images'', PList [x])]) out r) \<and>
   (images_first data = None \<and> str_at data ''image'' = Some s \<longrightarrow>
      response_shape data = Some (SingleImage s) \<and>
      interpret_response w data out r = interpret_response w (PDict [(''image'', PStr s)]) out r) \<and>
   (images_first data = None \<and> str_at data ''image'' = None \<and> str_at data ''image_url'' = Some s \<longrightarrow>
      response_shape data = Some (ImageUrl s) \<and>
      interpret_response w data out r =
        interpret_response w (PDict [(''image_url'', PStr s)]) out r) \<and>
   (images_first data = None \<and> str_at data ''image'' = None \<and> str_at data ''image_url'' = None \<and>
    str_at data ''file_path'' = Some s \<longrightarrow>
      response_shape data = Some (FilePath s) \<and>
      interpret_response w data out r =
        interpret_response w (PDict [(''file_path'', PStr s)]) out r) \<and>
   (images_first data = None \<and> str_at data ''image'' = None \<and> str_at data ''image_url'' = None \<and>
    str_at data ''file_path'' = None \<longrightarrow> response_shape data = None)"
proof (intro conjI impI)
  assume "images_first data = Some x"
  then show a: "response_shape data = Some (ImageList x)"
    by (simp add: response_shape_def)
  show "interpret_response w data out r =
        interpret_response w (PDict [(''images'', PList [x])]) out r"
    by (rule interpret_by_shape) (simp add: a shape_only_images)
next
  assume "images_first data = None \<and> str_at data ''image'' = Some s"
  then show a: "response_shape data = Some (SingleImage s)"
    by (simp add: response_shape_def)
  show "interpret_response w data out r = interpret_response w (PDict [(''image'', PStr s)]) out r"
    by (rule interpret_by_shape) (simp add: a shape_only_image)
next
  assume "images_first data = None \<and> str_at data ''image'' = None \<and> str_at data ''image_url'' = Some s"
  then show a: "response_shape data = Some (ImageUrl s)"
    by (simp add: response_shape_def)
  show "interpret_response w data out r =
        interpret_response w (PDict [(''image_url'', PStr s)]) out r"
    by (rule interpret_by_shape) (simp add: a shape_only_image_url)
next
  assume "images_first data = None \<and> str_at data ''image'' = None \<and> str_at data ''image_url'' = None \<and>
    str_at data ''file_path'' = Some s"
  then show a: "response_shape data = Some (FilePath s)"
    by (simp add: response_shape_def)
  show "interpret_response w data out r =
        interpret_response w (PDict [(''file_path'', PStr s)]) out r"
    by (rule interpret_by_shape) (simp add: a shape_only_file_path)
next
  assume "images_first data = None \<and> str_at data ''image'' = None \<and> str_at data ''image_url'' = None \<and>
    str_at data ''file_path'' = None"
  then show "response_shape data = None" by (simp add: response_shape_def)
qed

theorem response_priority_witness:
  "images_first all_keys_response = Some (PStr ''aGk='') \<and>
   str_at all_keys_response ''image'' = Some ''eHg='' \<and>
   str_at all_keys_response ''image_url'' = Some ''http://host/a.png'' \<and>
   str_at all_keys_response ''file_path'' = Some ''/srv/a.png'' \<and>
   response_shape all_keys_response = Some (ImageList (PStr ''aGk=''))"
proof -
  have 1: "images_first all_keys_response = Some (PStr ''aGk='')" by code_simp
  have 2: "str_at all_keys_response ''image'' = Some ''eHg=''" by code_simp
  have 3: "str_at all_keys_response ''image_url'' = Some ''http://host/a.png''" by code_simp
  have 4: "str_at all_keys_response ''file_path'' = Some ''/srv/a.png''" by code_simp
  have "response_shape all_keys_response = Some (ImageList (PStr ''aGk=''))"
    using response_priority [of all_keys_response "PStr ''aGk=''"] 1 by blast
  with 1 2 3 4 show ?thesis by simp
qed

text \<open>
  The claim as stated fails: an \<open>images\<close> key of its recognised type, an array, is not
  consumed when the array is empty; the single image is.
\<close>

theorem response_priority_counterexample:
  "holds_array empty_list_response ''images'' \<and>
   str_at empty_list_response ''image'' = Some ''aGk='' \<and>
   response_shape empty_list_response = Some (SingleImage ''aGk='') \<and>
   written_paths (generate_image (answering empty_list_response sample_world) ''a cat'' None new_run) =
     [''/ext/generated_images/latest.png'', ''/ext/generated_images/latest.png'']"
  by code_simp




subsection \<open>Failures\<close>

lemma generate_image_raised:
  "generate_image_try w prompt msg_uuid r = (Some e, r') \<Longrightarrow>
   generate_image w prompt msg_uuid r = show_error_message (str_exn e) (emit (PrintExc e) r')"
  by (simp add: generate_image_def)

lemma generate_image_returned:
  "generate_image_try w prompt msg_uuid r = (None, r') \<Longrightarrow> generate_image w prompt msg_uuid r = r'"
  by (simp add: generate_image_def)

lemma raised_reported:
  "fst (generate_image_try w prompt msg_uuid r) = Some e \<Longrightarrow>
   reported (str_exn e) (generate_image w prompt msg_uuid r)"
  by (cases "generate_image_try w prompt msg_uuid r")
     (simp add: generate_image_def reported_show_error)

lemma prepare_rejects:
  assumes "endpoint_path w = Inr ep" and "positive w prompt = Inr pos"
    and "img2img_image w = Inr []" and "img2img_enabled w"
  shows "prepare w prompt =
           Inr (Rejected ''Img2Img is enabled but no image path is set in Advanced Settings.'')"
  using assms by (simp add: prepare_def Let_def)

text \<open>
  C9 (as amended). \<open>generate_image\<close> has a result for every input and every behaviour of
  its environment. Every exception raised inside its \<open>try\<close> block is caught and reported:
  the run ends with the message printed and the loading state off. This covers an
  exception while the request is prepared, the client-side rejection of a missing
  image-to-image source, an exception of \<open>requests.post\<close>, an HTTP error status, a response
  body that is no JSON, a response of no recognised shape, and an error while a base64
  image is decoded or saved. The cache copy in the file-path branch is the exception: an
  error of \<open>download_and_save\<close> there is caught and dropped without a message.
\<close>

theorem failures_reported:
  "(fst (generate_image_try w prompt msg_uuid r) = Some e \<longrightarrow>
      reported (str_exn e) (generate_image w prompt msg_uuid r)) \<and>
   (prepare w prompt = Inl e1 \<longrightarrow>
      reported (str_exn e1) (generate_image w prompt msg_uuid r) \<and>
      posts (generate_image w prompt msg_uuid r) = posts r) \<and>
   (prepare w prompt = Inr (Rejected msg) \<longrightarrow>
      reported msg (generate_image w prompt msg_uuid r) \<and>
      posts (generate_image w prompt msg_uuid r) = posts r) \<and>
   (endpoint_path w = Inr ep \<and> positive w prompt = Inr pos \<and> img2img_image w = Inr [] \<and>
    img2img_enabled w \<longrightarrow>
      reported ''Img2Img is enabled but no image path is set in Advanced Settings.''
        (generate_image w prompt msg_uuid r) \<and>
      posts (generate_image w prompt msg_uuid r) = posts r) \<and>
   (prepare w prompt = Inr (Dispatch url payload) \<longrightarrow>
      (http_post w url payload = PostRaises m \<longrightarrow>
         reported m (generate_image w prompt msg_uuid r)) \<and>
      (http_post w url payload = Response False status body js \<longrightarrow>
         reported (''HTTP '' @ show_int status @ '': '' @ take 200 body)
           (generate_image w prompt msg_uuid r)) \<and>
      (http_post w url payload = Response True status body (Inl m) \<longrightarrow>
         reported m (generate_image w prompt msg_uuid r)) \<and>
      (http_post w url payload = Response True status body (Inr data) \<longrightarrow>
         (response_shape data = None \<longrightarrow>
            reported ''Unexpected response format from backend.''
              (generate_image w prompt msg_uuid r)) \<and>
         (response_shape data = Some (ImageList x) \<and>
          fst (save_base64_png w x (cache_out w msg_uuid) (emit (Post url payload) r)) = Some e2 \<longrightarrow>
            reported (str_exn e2) (generate_image w prompt msg_uuid r)) \<and>
         (response_shape data = Some (SingleImage s) \<and>
          fst (save_base64_png w (PStr s) (cache_out w msg_uuid) (emit (Post url payload) r)) = Some e2 \<longrightarrow>
            reported (str_exn e2) (generate_image w prompt msg_uuid r))))"
proof (intro conjI impI)
  assume "fst (generate_image_try w prompt msg_uuid r) = Some e"
  then show "reported (str_exn e) (generate_image w prompt msg_uuid r)" by (rule raised_reported)
next
  assume a: "prepare w prompt = Inl e1"
  then have "fst (generate_image_try w prompt msg_uuid r) = Some e1"
    by (simp add: generate_image_try_def)
  then show "reported (str_exn e1) (generate_image w prompt msg_uuid r)" by (rule raised_reported)
  show "posts (generate_image w prompt msg_uuid r) = posts r"
    using a by (simp add: posts_generate_image)
next
  assume a: "prepare w prompt = Inr (Rejected msg)"
  then have "generate_image w prompt msg_uuid r = show_error_message msg r"
    by (simp add: generate_image_def generate_image_try_def)
  then show "reported msg (generate_image w prompt msg_uuid r)" by (simp add: reported_show_error)
  show "posts (generate_image w prompt msg_uuid r) = posts r"
    using a by (simp add: posts_generate_image)
next
  assume "endpoint_path w = Inr ep \<and> positive w prompt = Inr pos \<and> img2img_image w = Inr [] \<and>
    img2img_enabled w"
  then have a: "prepare w prompt =
           Inr (Rejected ''Img2Img is enabled but no image path is set in Advanced Settings.'')"
    using prepare_rejects by blast
  then have "generate_image w prompt msg_uuid r =
      show_error_message ''Img2Img is enabled but no image path is set in Advanced Settings.'' r"
    by (simp add: generate_image_def generate_image_try_def)
  then show "reported ''Img2Img is enabled but no image path is set in Advanced Settings.''
        (generate_image w prompt msg_uuid r)" by (simp add: reported_show_error)
  show "posts (generate_image w prompt msg_uuid r) = posts r"
    using a by (simp add: posts_generate_image)
next
  assume "prepare w prompt = Inr (Dispatch url payload)" and "http_post w url payload = PostRaises m"
  then have "fst (generate_image_try w prompt msg_uuid r) = Some (RequestException m)"
    by (simp add: generate_image_try_def Let_def)
  then show "reported m (generate_image w prompt msg_uuid r)"
    using raised_reported by fastforce
next
  assume "prepare w prompt = Inr (Dispatch url payload)"
    and "http_post w url payload = Response False status body js"
  then have "generate_image w prompt msg_uuid r =
     show_error_message (''HTTP '' @ show_int status @ '': '' @ take 200 body)
       (emit (Post url payload) r)"
    by (simp add: generate_image_def generate_image_try_def Let_def)
  then show "reported (''HTTP '' @ show_int status @ '': '' @ take 200 body)
           (generate_image w prompt msg_uuid r)"
    by (simp only: reported_show_error)
next
  assume "prepare w prompt = Inr (Dispatch url payload)"
    and "http_post w url payload = Response True status body (Inl m)"
  then have "fst (generate_image_try w prompt msg_uuid r) = Some (JSONDecodeError m)"
    by (simp add: generate_image_try_def Let_def)
  then show "reported m (generate_image w prompt msg_uuid r)"
    using raised_reported by fastforce
next
  assume p: "prepare w prompt = Inr (Dispatch url payload)"
    and h: "http_post w url payload = Response True status body (Inr data)"
  note t = generate_image_response [OF p h, of msg_uuid r]
  {
    assume "response_shape data = None"
    then have "generate_image w prompt msg_uuid r =
       show_error_message ''Unexpected response format from backend.'' (emit (Post url payload) r)"
      by (simp add: generate_image_def t interpret_response_def)
    then show "reported ''Unexpected response format from backend.''
              (generate_image w prompt msg_uuid r)"
      by (simp only: reported_show_error)
  }
  {
    assume "response_shape data = Some (ImageList x) \<and>
          fst (save_base64_png w x (cache_out w msg_uuid) (emit (Post url payload) r)) = Some e2"
    then have "fst (generate_image_try w prompt msg_uuid r) = Some e2"
      by (auto simp: t interpret_response_def split: prod.splits option.splits)
    then show "reported (str_exn e2) (generate_image w prompt msg_uuid r)"
      by (rule raised_reported)
  }
  {
    assume "response_shape data = Some (SingleImage s) \<and>
          fst (save_base64_png w (PStr s) (cache_out w msg_uuid) (emit (Post url payload) r)) = Some e2"
    then have "fst (generate_image_try w prompt msg_uuid r) = Some e2"
      by (auto simp: t interpret_response_def split: prod.splits option.splits)
    then show "reported (str_exn e2) (generate_image w prompt msg_uuid r)"
      by (rule raised_reported)
  }
qed

theorem failures_reported_witness:
  "reported ''HTTP 500: Internal Server Error'' (generate_image http_error_world ''a cat'' None new_run) \<and>
   printed (generate_image http_error_world ''a cat'' None new_run) =
     [''[LightDiffusionExtension] Error: HTTP 500: Internal Server Error''] \<and>
   \<not> loading (wdg (generate_image http_error_world ''a cat'' None new_run))"
proof -
  let ?w = http_error_world
  obtain url payload where p: "prepare ?w ''a cat'' = Inr (Dispatch url payload)"
  proof -
    have "case prepare ?w ''a cat'' of Inr (Dispatch u p) \<Rightarrow> True | _ \<Rightarrow> False" by code_simp
    then show ?thesis using that by (auto split: sum.splits request.splits)
  qed
  have h: "http_post ?w url payload = Response False 500 ''Internal Server Error'' (Inl [])"
    by (simp add: http_error_world_def)
  have s: "''HTTP '' @ show_int 500 @ '': '' @ take 200 ''Internal Server Error'' =
           ''HTTP 500: Internal Server Error''" by code_simp
  have "reported (''HTTP '' @ show_int 500 @ '': '' @ take 200 ''Internal Server Error'')
          (generate_image ?w ''a cat'' None new_run)"
    using failures_reported [of ?w "''a cat''" None new_run _ _ _ _ _ url payload _ 500
        "''Internal Server Error''" "Inl []"] p h
    by blast
  then have r: "reported ''HTTP 500: Internal Server Error'' (generate_image ?w ''a cat'' None new_run)"
    unfolding s .
  have q: "printed (generate_image ?w ''a cat'' None new_run) =
     [''[LightDiffusionExtension] Error: HTTP 500: Internal Server Error'']" by code_simp
  from r q show ?thesis by (simp add: reported_def)
qed

text \<open>
  The claim as stated fails for the file-path response: on a new widget
  \<open>download_and_save\<close> raises (no URL is set), the error is dropped, nothing is printed, no
  cache file is written and the loading state stays on.
\<close>

theorem silent_cache_failure_counterexample:
  "fst (download_and_save file_path_world (cache_out file_path_world None)
          (set_image_from_path ''/srv/out.png'' (dispatched file_path_world ''a cat'' new_run))) =
     Some (ValueError ''No URL set to download'') \<and>
   printed (generate_image file_path_world ''a cat'' None new_run) = [] \<and>
   loading (wdg (generate_image file_path_world ''a cat'' None new_run)) \<and>
   written_paths (generate_image file_path_world ''a cat'' None new_run) = []"
  by code_simp

end
